theory Spec2Isabelle
  imports Main "HOL-Library.Word"
begin

section \<open>Strings of the source language\<close>

text \<open>
  The program is \<^verbatim>\<open>messageResource.js\<close>. Its strings are sequences of 16-bit code
  units, so a string is a list of 16-bit words: \<^verbatim>\<open>String.fromCharCode\<close> can then
  produce every code unit that a \<^verbatim>\<open>\uXXXX\<close> escape names. The function \<open>js\<close>
  writes an ASCII literal.
\<close>

type_synonym jschar = "16 word"
type_synonym jsstring = "jschar list"

definition js :: "string \<Rightarrow> jsstring" where
  "js s = map of_char s"

definition newline :: jschar where "newline = 0x0A"
definition hash_sign :: jschar where "hash_sign = 0x23"
definition eq_sign :: jschar where "eq_sign = 0x3D"
definition hyphen :: jschar where "hyphen = 0x2D"
definition underscore :: jschar where "underscore = 0x5F"
definition slash :: jschar where "slash = 0x2F"
definition dot :: jschar where "dot = 0x2E"
definition backslash :: jschar where "backslash = 0x5C"
definition letter_u :: jschar where "letter_u = 0x75"

text \<open>
  The line terminators of the language (LF, CR, LS, PS): the characters that \<^verbatim>\<open>.\<close>
  of a regular expression does not match. White space and line terminators together are
  what \<^verbatim>\<open>String.prototype.trim\<close> (and \<^verbatim>\<open>\s\<close> of the fallback at the end of
  the file) strips.
\<close>

definition is_line_terminator :: "jschar \<Rightarrow> bool" where
  "is_line_terminator c \<longleftrightarrow> c = 0x0A \<or> c = 0x0D \<or> c = 0x2028 \<or> c = 0x2029"

definition is_white_space :: "jschar \<Rightarrow> bool" where
  "is_white_space c \<longleftrightarrow>
     c = 0x09 \<or> c = 0x0B \<or> c = 0x0C \<or> c = 0x20 \<or> c = 0xA0 \<or> c = 0x1680 \<or>
     (0x2000 \<le> c \<and> c \<le> 0x200A) \<or> c = 0x202F \<or> c = 0x205F \<or> c = 0x3000 \<or> c = 0xFEFF"

definition is_trim_char :: "jschar \<Rightarrow> bool" where
  "is_trim_char c \<longleftrightarrow> is_white_space c \<or> is_line_terminator c"

definition trim :: "jsstring \<Rightarrow> jsstring" where
  "trim s = rev (dropWhile is_trim_char (rev (dropWhile is_trim_char s)))"

text \<open>\<^verbatim>\<open>text.split('\n')\<close>: the empty string gives one empty line.\<close>

fun split_on :: "jschar \<Rightarrow> jsstring \<Rightarrow> jsstring list" where
  "split_on c [] = [[]]"
| "split_on c (x # xs) =
     (if x = c then [] # split_on c xs
      else (case split_on c xs of
              l # ls \<Rightarrow> (x # l) # ls
            | [] \<Rightarrow> [[x]]))"

text \<open>
  \<^verbatim>\<open>'' + status\<close>: the decimal digits of a number (a number below \<open>10\<^sup>2\<^sup>1\<close> has
  no exponent in its string; a status value is far below).
\<close>

fun to_decimal :: "nat \<Rightarrow> jsstring" where
  "to_decimal n =
     (if n < 10 then [of_nat (48 + n)]
      else to_decimal (n div 10) @ [of_nat (48 + n mod 10)])"

declare to_decimal.simps [simp del]

text \<open>\<^verbatim>\<open>locale.replace('-', '_')\<close> with a string pattern: the first occurrence only.\<close>

fun replace_first :: "jschar \<Rightarrow> jschar \<Rightarrow> jsstring \<Rightarrow> jsstring" where
  "replace_first a b [] = []"
| "replace_first a b (c # cs) = (if c = a then b # cs else c # replace_first a b cs)"

section \<open>The module's variables\<close>

text \<open>
  The resource store \<^verbatim>\<open>properties\<close> is an object of objects of objects, used as
  dictionaries: locale, then module, then key. Each level is a map of the own properties
  of an object that \<^verbatim>\<open>{}\<close> created. The store that is still \<^verbatim>\<open>undefined\<close> is the
  empty map: every read of the source guards with \<^verbatim>\<open>properties &&\<close> and every write
  with \<^verbatim>\<open>properties || {}\<close>.
\<close>

type_synonym module_map = "jsstring \<rightharpoonup> jsstring"
type_synonym locale_map = "jsstring \<rightharpoonup> module_map"
type_synonym store = "jsstring \<rightharpoonup> locale_map"

text \<open>
  An object that \<^verbatim>\<open>{}\<close> created inherits the members of \<^verbatim>\<open>Object.prototype\<close>:
  a read \<^verbatim>\<open>obj[name]\<close> of one of these names finds a function (for
  \<^verbatim>\<open>__proto__\<close>, the prototype object) unless the object has a property of its own
  with that name. For a key of a module's map this is part of the model (\<open>save_line\<close>
  and \<open>get\<close> below). A locale or a module with such a name reaches a built-in object
  in place of a map of the store, and what that object holds depends on the engine: the
  maps of the store stand for locales and modules with other names.
\<close>

definition object_prototype_names :: "jsstring list" where
  "object_prototype_names =
     map js [''constructor'', ''hasOwnProperty'', ''isPrototypeOf'', ''propertyIsEnumerable'',
       ''toLocaleString'', ''toString'', ''valueOf'', ''__proto__'', ''__defineGetter__'',
       ''__defineSetter__'', ''__lookupGetter__'', ''__lookupSetter__'']"

definition inherited :: "jsstring \<Rightarrow> bool" where
  "inherited name \<longleftrightarrow> name \<in> set object_prototype_names"

text \<open>
  What the program does to its environment, in order: a line on the console, an alert, a
  call of the fetch capability with a URL, a call of the caller's callback (always without
  arguments).
\<close>

datatype event = ConsoleLog jsstring | Alert jsstring | Fetch jsstring | Callback

text \<open>The fetch capability: the built-in \<^verbatim>\<open>ajaxGet\<close> or a function of the caller.\<close>

datatype ajax = AjaxGet | CustomAjax nat

text \<open>
  What a fetch hands to its completion callback: the response text, or a status value
  (\<^verbatim>\<open>ajaxGet\<close> passes \<^verbatim>\<open>xmlhttp.status\<close> when it is not 200). The status of an
  \<^verbatim>\<open>XMLHttpRequest\<close> is an unsigned 16-bit number.
\<close>

datatype fetch_result = ResponseText jsstring | StatusValue "16 word"

text \<open>
  The \<^verbatim>\<open>onreadystatechange\<close> handler of \<^verbatim>\<open>ajaxGet\<close> at ready state 4: what
  it passes to the callback for a response with this status and this text.
\<close>

definition ajaxGet :: "16 word \<Rightarrow> jsstring \<Rightarrow> fetch_result" where
  "ajaxGet status responseText =
     (if status = 200 then ResponseText responseText else StatusValue status)"

record state =
  properties :: store
  filePath :: jsstring
  fileExtension :: jsstring
  defaultLocale :: jsstring
  currentLocale :: jsstring
  fileNameResolver :: "jsstring \<Rightarrow> jsstring option \<Rightarrow> jsstring"
  ajaxFunction :: ajax
  validConfiguration :: bool
  debugMode :: bool
  trace :: "event list"

definition DEFAULT_MODULE_NAME :: jsstring where
  "DEFAULT_MODULE_NAME = js ''_default''"

definition DEFAULT_EXTENSION :: jsstring where
  "DEFAULT_EXTENSION = js ''.properties''"

text \<open>
  A locale argument is a string or absent (\<open>None\<close>). Every value that is not a string
  behaves as the absent one at both places that read it (\<^verbatim>\<open>getValidLocale\<close> and the
  file name resolver test \<^verbatim>\<open>typeof locale === 'string'\<close>).
\<close>

definition defaultFileNameResolver :: "jsstring \<Rightarrow> jsstring option \<Rightarrow> jsstring" where
  "defaultFileNameResolver module locale =
     (case locale of
        Some l \<Rightarrow> if l \<noteq> [] then module @ js ''_'' @ l else module
      | None \<Rightarrow> module)"

text \<open>
  The variables as the module's closure creates them. \<^verbatim>\<open>filePath\<close>,
  \<^verbatim>\<open>fileExtension\<close>, \<^verbatim>\<open>fileNameResolver\<close> and \<^verbatim>\<open>ajaxFunction\<close> are
  \<^verbatim>\<open>undefined\<close> until \<^verbatim>\<open>init\<close>; nothing reads them before, and the values here
  stand for that.
\<close>

definition initial_state :: state where
  "initial_state =
     \<lparr> properties = Map.empty,
       filePath = [],
       fileExtension = [],
       defaultLocale = js ''en_US'',
       currentLocale = js ''en_US'',
       fileNameResolver = defaultFileNameResolver,
       ajaxFunction = AjaxGet,
       validConfiguration = False,
       debugMode = False,
       trace = [] \<rparr>"

section \<open>The private functions\<close>

definition emit :: "event \<Rightarrow> state \<Rightarrow> state" where
  "emit e st = st\<lparr>trace := trace st @ [e]\<rparr>"

text \<open>\<^verbatim>\<open>log(msg, doAlert)\<close>, in a browser (a console and \<^verbatim>\<open>alert\<close> exist).\<close>

definition log :: "jsstring \<Rightarrow> bool \<Rightarrow> state \<Rightarrow> state" where
  "log msg doAlert st =
     (let st1 = (if debugMode st
                 then emit (ConsoleLog (js ''messageResource.js : '' @ msg)) st else st)
      in if doAlert then emit (Alert (js ''messageResource.js : '' @ msg)) st1 else st1)"

text \<open>
  \<^verbatim>\<open>line.match(/([^=]*)=(.*)$/)\<close>. At one start position the greedy \<^verbatim>\<open>[^=]*\<close>
  runs to the next \<^verbatim>\<open>=\<close> (a shorter run is followed by a character that is not
  \<^verbatim>\<open>=\<close>), and \<^verbatim>\<open>(.*)$\<close> has to reach the end of the string, which it does when no
  line terminator follows. The search tries the start positions from the left.
\<close>

definition match_from :: "jsstring \<Rightarrow> (jsstring \<times> jsstring) option" where
  "match_from s =
     (case dropWhile (\<lambda>c. c \<noteq> eq_sign) s of
        [] \<Rightarrow> None
      | _ # v \<Rightarrow> if list_ex is_line_terminator v then None
                 else Some (takeWhile (\<lambda>c. c \<noteq> eq_sign) s, v))"

fun match_key_value :: "jsstring \<Rightarrow> (jsstring \<times> jsstring) option" where
  "match_key_value [] = None"
| "match_key_value (c # cs) =
     (case match_from (c # cs) of
        Some kv \<Rightarrow> Some kv
      | None \<Rightarrow> match_key_value cs)"

text \<open>\<^verbatim>\<open>curModuleMap[key] = value\<close>, where \<^verbatim>\<open>curModuleMap\<close> is \<^verbatim>\<open>properties[locale][module]\<close>.\<close>

definition locale_entry :: "store \<Rightarrow> jsstring \<Rightarrow> locale_map" where
  "locale_entry ps l = (case ps l of None \<Rightarrow> Map.empty | Some lm \<Rightarrow> lm)"

definition module_entry :: "store \<Rightarrow> jsstring \<Rightarrow> jsstring \<Rightarrow> module_map" where
  "module_entry ps l m = (case locale_entry ps l m of None \<Rightarrow> Map.empty | Some mm \<Rightarrow> mm)"

definition set_key :: "jsstring \<Rightarrow> jsstring \<Rightarrow> jsstring \<Rightarrow> jsstring \<Rightarrow> store \<Rightarrow> store" where
  "set_key l m k v ps = ps(l \<mapsto> (locale_entry ps l)(m \<mapsto> (module_entry ps l m)(k \<mapsto> v)))"

text \<open>\<^verbatim>\<open>properties[locale] = properties[locale] || {}\<close> and the same one level down.\<close>

definition ensure_locale :: "jsstring \<Rightarrow> store \<Rightarrow> store" where
  "ensure_locale l ps = ps(l \<mapsto> locale_entry ps l)"

definition ensure_module :: "jsstring \<Rightarrow> jsstring \<Rightarrow> store \<Rightarrow> store" where
  "ensure_module l m ps = ps(l \<mapsto> (locale_entry ps l)(m \<mapsto> module_entry ps l m))"

text \<open>
  The body of the \<^verbatim>\<open>forEach\<close> of \<^verbatim>\<open>saveFile\<close>, for one line. The assignment
  \<^verbatim>\<open>curModuleMap[key] = value\<close> with the key \<^verbatim>\<open>__proto__\<close> calls the setter that
  \<^verbatim>\<open>Object.prototype\<close> has for this name, which ignores a string: nothing is stored.
  Every other key becomes a property of the map's own.
\<close>

definition save_line :: "jsstring \<Rightarrow> jsstring \<Rightarrow> state \<Rightarrow> jsstring \<Rightarrow> state" where
  "save_line module locale st line0 =
     (let line = trim line0 in
      case line of
        [] \<Rightarrow> st
      | c # _ \<Rightarrow>
          if c = hash_sign then st
          else (case match_key_value line of
                  Some (k, v) \<Rightarrow>
                    if k \<noteq> []
                    then (if trim k = js ''__proto__'' then st
                          else st\<lparr>properties :=
                                 set_key locale module (trim k) (if v \<noteq> [] then trim v else [])
                                   (properties st)\<rparr>)
                    else log (js ''Invalid line : '' @ line) False st
                | None \<Rightarrow> log (js ''Invalid line : '' @ line) False st))"

definition coerce_text :: "fetch_result \<Rightarrow> jsstring" where
  "coerce_text r = (case r of ResponseText t \<Rightarrow> t | StatusValue n \<Rightarrow> to_decimal (unat n))"

definition saveFile :: "fetch_result \<Rightarrow> jsstring \<Rightarrow> jsstring \<Rightarrow> state \<Rightarrow> state" where
  "saveFile text module locale st =
     (let text' = coerce_text text in
      if text' = [] then log (js ''Invalid contents.'') False st
      else foldl (save_line module locale)
             (st\<lparr>properties := ensure_module locale module (properties st)\<rparr>)
             (split_on newline text'))"

definition getValidLocale :: "jsstring option \<Rightarrow> state \<Rightarrow> jsstring" where
  "getValidLocale locale st =
     (let l = (case locale of
                 None \<Rightarrow> currentLocale st
               | Some s \<Rightarrow> if s = [] then currentLocale st else s)
      in if hyphen \<in> set l then replace_first hyphen underscore l else l)"

definition isModuleLoaded :: "jsstring \<Rightarrow> jsstring \<Rightarrow> state \<Rightarrow> bool" where
  "isModuleLoaded module locale st =
     (if module \<noteq> [] \<and> locale \<noteq> []
      then (case properties st locale of
              None \<Rightarrow> False
            | Some lm \<Rightarrow> (case lm module of None \<Rightarrow> False | Some _ \<Rightarrow> True))
      else False)"

definition is_hex_digit :: "jschar \<Rightarrow> bool" where
  "is_hex_digit c \<longleftrightarrow>
     (0x30 \<le> c \<and> c \<le> 0x39) \<or> (0x41 \<le> c \<and> c \<le> 0x46) \<or> (0x61 \<le> c \<and> c \<le> 0x66)"

definition hex_value :: "jschar \<Rightarrow> nat" where
  "hex_value c =
     (if c \<le> 0x39 then unat c - 0x30
      else if c \<le> 0x46 then unat c - 0x41 + 10
      else unat c - 0x61 + 10)"

text \<open>\<^verbatim>\<open>parseInt(digits, 16)\<close> on hexadecimal digits, and \<^verbatim>\<open>String.fromCharCode\<close>.\<close>

definition parse_hex :: "jsstring \<Rightarrow> nat" where
  "parse_hex ds = foldl (\<lambda>n d. 16 * n + hex_value d) 0 ds"

definition fromCharCode :: "nat \<Rightarrow> jschar" where
  "fromCharCode n = of_nat n"

text \<open>
  \<^verbatim>\<open>str.replace(/\\u[\dA-Fa-f]{4}/g, ...)\<close>: the matches are taken from the left and do
  not overlap; the inner \<^verbatim>\<open>replace(/\\u/g, '')\<close> strips the two leading characters
  of a match.
\<close>

fun convertUnicodeString :: "jsstring \<Rightarrow> jsstring" where
  "convertUnicodeString (b # u # h1 # h2 # h3 # h4 # rest) =
     (if b = backslash \<and> u = letter_u \<and>
         is_hex_digit h1 \<and> is_hex_digit h2 \<and> is_hex_digit h3 \<and> is_hex_digit h4
      then fromCharCode (parse_hex [h1, h2, h3, h4]) # convertUnicodeString rest
      else b # convertUnicodeString (u # h1 # h2 # h3 # h4 # rest))"
| "convertUnicodeString (c # cs) = c # convertUnicodeString cs"
| "convertUnicodeString [] = []"

section \<open>The public functions\<close>

record config =
  cfg_filePath :: "jsstring option"
  cfg_fileExtension :: "jsstring option"
  cfg_defaultLocale :: "jsstring option"
  cfg_fileNameResolver :: "(jsstring \<Rightarrow> jsstring option \<Rightarrow> jsstring) option"
  cfg_ajaxFunction :: "ajax option"
  cfg_debugMode :: "bool option"

definition empty_config :: config where
  "empty_config =
     \<lparr> cfg_filePath = None, cfg_fileExtension = None, cfg_defaultLocale = None,
       cfg_fileNameResolver = None, cfg_ajaxFunction = None, cfg_debugMode = None \<rparr>"

text \<open>\<^verbatim>\<open>a || b\<close> on a string that may be absent: the empty string is falsy.\<close>

definition or_else :: "jsstring option \<Rightarrow> jsstring \<Rightarrow> jsstring" where
  "or_else a b = (case a of None \<Rightarrow> b | Some s \<Rightarrow> if s = [] then b else s)"

definition init :: "config option \<Rightarrow> state \<Rightarrow> state" where
  "init config0 st =
     (let config = (case config0 of None \<Rightarrow> empty_config | Some c \<Rightarrow> c);
          fp = or_else (cfg_filePath config) [];
          fp' = (if fp \<noteq> [] \<and> last fp \<noteq> slash then fp @ [slash] else fp);
          fe = or_else (cfg_fileExtension config) DEFAULT_EXTENSION;
          fe' = (case fe of [] \<Rightarrow> dot # fe | c # _ \<Rightarrow> if c \<noteq> dot then dot # fe else fe);
          dl = getValidLocale (cfg_defaultLocale config) st
      in st\<lparr> filePath := fp',
             fileExtension := fe',
             defaultLocale := dl,
             currentLocale := dl,
             fileNameResolver :=
               (case cfg_fileNameResolver config of None \<Rightarrow> defaultFileNameResolver | Some f \<Rightarrow> f),
             ajaxFunction := (case cfg_ajaxFunction config of None \<Rightarrow> AjaxGet | Some a \<Rightarrow> a),
             debugMode := (case cfg_debugMode config of None \<Rightarrow> False | Some b \<Rightarrow> b),
             validConfiguration := True \<rparr>)"

definition setCurrentLocale :: "jsstring option \<Rightarrow> state \<Rightarrow> state" where
  "setCurrentLocale locale st =
     (case locale of
        None \<Rightarrow> st
      | Some l \<Rightarrow> if l \<noteq> [] then st\<lparr>currentLocale := l\<rparr> else st)"

text \<open>
  The module argument of \<^verbatim>\<open>load\<close>: absent, one name, or an array of names. An
  array is truthy also when it is empty; the empty name is falsy.
\<close>

datatype module_arg = NoModule | OneModule jsstring | ManyModules "jsstring list"

definition fileLocale :: "jsstring option \<Rightarrow> state \<Rightarrow> jsstring option" where
  "fileLocale locale st =
     (if getValidLocale locale st = defaultLocale st then locale
      else Some (getValidLocale locale st))"

text \<open>Lines 274 and 278 to 290 of the source: the list \<^verbatim>\<open>modulesToLoad\<close>.\<close>

definition collect_modules :: "module_arg \<Rightarrow> jsstring \<Rightarrow> state \<Rightarrow> jsstring list" where
  "collect_modules module vlocale st =
     (case module of
        ManyModules ms \<Rightarrow> filter (\<lambda>m. m \<noteq> [] \<and> \<not> isModuleLoaded m vlocale st) ms
      | OneModule m \<Rightarrow>
          (let vm = (if m = [] then DEFAULT_MODULE_NAME else m)
           in if \<not> isModuleLoaded vm vlocale st then [vm] else [])
      | NoModule \<Rightarrow>
          (if \<not> isModuleLoaded DEFAULT_MODULE_NAME vlocale st then [DEFAULT_MODULE_NAME] else []))"

definition fileUrl :: "jsstring \<Rightarrow> jsstring option \<Rightarrow> state \<Rightarrow> jsstring" where
  "fileUrl modName flocale st = filePath st @ fileNameResolver st modName flocale @ fileExtension st"

text \<open>
  What the completion callbacks of one \<^verbatim>\<open>load\<close> call share: the list
  \<^verbatim>\<open>modulesToLoad\<close>, the locale, the counter \<^verbatim>\<open>filesLoadedCount\<close>, and whether the
  caller gave a callback.
\<close>

record load_call =
  modulesToLoad :: "jsstring list"
  validLocale :: jsstring
  filesLoadedCount :: nat
  callback :: bool

text \<open>
  \<^verbatim>\<open>load(module, callback, locale)\<close> up to its return: the fetches are issued, none
  has completed. A call that issues fetches returns the closure of their completions.
\<close>

definition load :: "module_arg \<Rightarrow> bool \<Rightarrow> jsstring option \<Rightarrow> state \<Rightarrow> state \<times> load_call option" where
  "load module cb locale st =
     (if \<not> validConfiguration st
      then (log (js ''Invalid configuration - Invoke init method with proper configuration'') True st,
            None)
      else
        (let vlocale = getValidLocale locale st;
             flocale = fileLocale locale st;
             mods = collect_modules module vlocale st
         in if mods = [] then ((if cb then emit Callback st else st), None)
            else
              (foldl (\<lambda>s modName. emit (Fetch (fileUrl modName flocale s)) s)
                 (st\<lparr>properties := ensure_locale vlocale (properties st)\<rparr>) mods,
               Some \<lparr> modulesToLoad = mods, validLocale = vlocale,
                      filesLoadedCount = 0, callback = cb \<rparr>)))"

text \<open>
  The completion callback that \<^verbatim>\<open>load\<close> hands to the fetch capability for the module
  \<open>modName\<close>, called with \<open>text\<close>. On a map of the store no statement of
  \<^verbatim>\<open>saveFile\<close> throws, and the counter is reached. (When the module or the locale is
  named like a member of \<^verbatim>\<open>Object.prototype\<close>, \<^verbatim>\<open>curModuleMap\<close> is a built-in
  object, and the assignment of line 88 to a read-only property of it, such as
  \<^verbatim>\<open>length\<close> of a function, throws in strict mode before the counter: see the text on
  the store.)
\<close>

definition fetch_complete :: "load_call \<times> state \<Rightarrow> jsstring \<times> fetch_result \<Rightarrow> load_call \<times> state" where
  "fetch_complete ls d =
     (let lc = fst ls;
          st1 = saveFile (snd d) (fst d) (validLocale lc) (snd ls);
          n = filesLoadedCount lc + 1
      in (lc\<lparr>filesLoadedCount := n\<rparr>,
          if n = length (modulesToLoad lc) \<and> callback lc then emit Callback st1 else st1))"

text \<open>The fetch capability delivers completions, in the order it chooses.\<close>

definition deliver :: "(jsstring \<times> fetch_result) list \<Rightarrow> load_call \<times> state \<Rightarrow> load_call \<times> state" where
  "deliver ds ls = foldl fetch_complete ls ds"

text \<open>
  \<^verbatim>\<open>get(key, module, locale, defaultValue)\<close>. Reading a property of
  \<^verbatim>\<open>undefined\<close> throws a \<^verbatim>\<open>TypeError\<close>: the two reads
  \<^verbatim>\<open>properties[validLocale][validModule]\<close> and \<^verbatim>\<open>moduleObj[key]\<close> are written so.
  When the module's map has no property \<^verbatim>\<open>key\<close> of its own and \<^verbatim>\<open>key\<close> names a
  member of \<^verbatim>\<open>Object.prototype\<close>, \<^verbatim>\<open>moduleObj[key]\<close> is that member: it is not
  \<^verbatim>\<open>undefined\<close>, so it becomes \<^verbatim>\<open>value\<close>, and \<^verbatim>\<open>convertUnicodeString\<close>
  throws a \<^verbatim>\<open>TypeError\<close> at \<^verbatim>\<open>str.replace\<close>, which a function or the prototype
  object does not have.
\<close>

datatype error = TypeError

definition get :: "jsstring \<Rightarrow> jsstring option \<Rightarrow> jsstring option \<Rightarrow> jsstring option \<Rightarrow> state
    \<Rightarrow> error + jsstring" where
  "get key module locale defaultValue st =
     (let val = or_else defaultValue key;
          vmodule = or_else module DEFAULT_MODULE_NAME;
          vlocale = getValidLocale locale st
      in if isModuleLoaded vmodule vlocale st
         then (case properties st vlocale of
                 None \<Rightarrow> Inl TypeError
               | Some lm \<Rightarrow>
                   (case lm vmodule of
                      None \<Rightarrow> Inl TypeError
                    | Some moduleObj \<Rightarrow>
                        (case moduleObj key of
                           Some v \<Rightarrow> Inr (convertUnicodeString v)
                         | None \<Rightarrow>
                             if inherited key then Inl TypeError
                             else Inr (convertUnicodeString val))))
         else Inr (convertUnicodeString val))"

section \<open>Runs of the module\<close>

text \<open>
  What can happen to the module's variables: a call of a public function, the internal
  parse \<^verbatim>\<open>saveFile\<close>, or the completion of a fetch of some \<^verbatim>\<open>load\<close> call.
  \<^verbatim>\<open>get\<close> assigns no variable and calls no function that does: it leaves the state
  as it is.
\<close>

datatype operation =
    Init "config option"
  | SetCurrentLocale "jsstring option"
  | Load module_arg bool "jsstring option"
  | Get jsstring "jsstring option" "jsstring option" "jsstring option"
  | Parse fetch_result jsstring jsstring
  | Complete load_call "jsstring \<times> fetch_result"

fun run_op :: "state \<Rightarrow> operation \<Rightarrow> state" where
  "run_op st (Init config) = init config st"
| "run_op st (SetCurrentLocale locale) = setCurrentLocale locale st"
| "run_op st (Load module cb locale) = fst (load module cb locale st)"
| "run_op st (Get key module locale defaultValue) = st"
| "run_op st (Parse text module locale) = saveFile text module locale st"
| "run_op st (Complete lc d) = snd (fetch_complete (lc, st) d)"

text \<open>
  Every entry of the first store is an entry of the second, with at least its keys.
\<close>

definition kept :: "store \<Rightarrow> store \<Rightarrow> bool" where
  "kept ps ps' \<longleftrightarrow>
     (\<forall>l lm m mm. ps l = Some lm \<and> lm m = Some mm \<longrightarrow>
        (\<exists>lm' mm'. ps' l = Some lm' \<and> lm' m = Some mm' \<and> dom mm \<subseteq> dom mm'))"

section \<open>States used as examples\<close>

text \<open>The module after \<^verbatim>\<open>messageResource.init()\<close> with no configuration.\<close>

definition ready_state :: state where
  "ready_state = init None initial_state"

text \<open>A state whose store holds the module \<^verbatim>\<open>A\<close> for the locale \<^verbatim>\<open>en_US\<close>.\<close>

definition loaded_state :: state where
  "loaded_state =
     ready_state\<lparr>properties := [js ''en_US'' \<mapsto> [js ''A'' \<mapsto> [js ''k'' \<mapsto> js ''v'']]]\<rparr>"


section \<open>Observations on the trace\<close>

text \<open>How often the caller's callback has been called, and the URLs fetched so far.\<close>

definition callbacks :: "state \<Rightarrow> nat" where
  "callbacks st = count_list (trace st) Callback"

definition fetches :: "state \<Rightarrow> jsstring list" where
  "fetches st = concat (map (\<lambda>e. case e of Fetch u \<Rightarrow> [u] | _ \<Rightarrow> []) (trace st))"

text \<open>\<^verbatim>\<open>load(['A', 'B'], callback)\<close> on the initialised module.\<close>

definition two_modules_load :: "state \<times> load_call option" where
  "two_modules_load = load (ManyModules [js ''A'', js ''B'']) True None ready_state"

text \<open>
  \<^verbatim>\<open>load('A', callback)\<close> on the initialised module, and the state after its fetch
  has completed with an empty response text.
\<close>

definition one_module_load :: "state \<times> load_call option" where
  "one_module_load = load (OneModule (js ''A'')) True None ready_state"

definition after_empty_response :: state where
  "after_empty_response =
     snd (fetch_complete (the (snd one_module_load), fst one_module_load) (js ''A'', ResponseText []))"

text \<open>A locale value that the file name resolver takes as no locale: absent or empty.\<close>

definition absent :: "jsstring option \<Rightarrow> bool" where
  "absent x \<longleftrightarrow> x = None \<or> x = Some []"

text \<open>What \<^verbatim>\<open>load\<close> reports when \<^verbatim>\<open>init\<close> has not been called.\<close>

definition invalid_configuration_message :: jsstring where
  "invalid_configuration_message =
     js ''messageResource.js : Invalid configuration - Invoke init method with proper configuration''"

text \<open>The state after the fetch of \<^verbatim>\<open>load('A', callback)\<close> has completed with the status 404.\<close>

definition after_status_404 :: state where
  "after_status_404 =
     snd (fetch_complete (the (snd one_module_load), fst one_module_load) (js ''A'', StatusValue 404))"


text \<open>
  A file text whose only line holds a carriage return after its first \<^verbatim>\<open>=\<close>, and
  the initialised module after parsing it for the module \<^verbatim>\<open>M\<close>.
\<close>

definition carriage_return :: jschar where "carriage_return = 0x0D"

definition cr_text :: jsstring where
  "cr_text = js ''a=b'' @ [carriage_return] @ js ''c=d''"

definition after_cr_text :: state where
  "after_cr_text = saveFile (ResponseText cr_text) (js ''M'') (js ''en_US'') ready_state"

section \<open>The store is only ever extended\<close>

lemma kept_refl: "kept ps ps"
  by (auto simp: kept_def)

lemma kept_trans:
  assumes ab: "kept a b" and bc: "kept b c"
  shows "kept a c"
  unfolding kept_def
proof (intro allI impI)
  fix l lm m mm
  assume h: "a l = Some lm \<and> lm m = Some mm"
  from ab h obtain lm1 mm1 where
    1: "b l = Some lm1" "lm1 m = Some mm1" "dom mm \<subseteq> dom mm1"
    unfolding kept_def by blast
  from bc 1 obtain lm2 mm2 where
    2: "c l = Some lm2" "lm2 m = Some mm2" "dom mm1 \<subseteq> dom mm2"
    unfolding kept_def by blast
  from 1 2 have "dom mm \<subseteq> dom mm2" by blast
  with 2 show "\<exists>lm' mm'. c l = Some lm' \<and> lm' m = Some mm' \<and> dom mm \<subseteq> dom mm'"
    by blast
qed

lemma kept_set_key: "kept ps (set_key l m k v ps)"
  by (auto simp: kept_def set_key_def locale_entry_def module_entry_def)



lemma properties_emit [simp]: "properties (emit e st) = properties st"
  by (simp add: emit_def)

lemma properties_log [simp]: "properties (log msg a st) = properties st"
  by (simp add: log_def Let_def)

lemma kept_save_line: "kept (properties st) (properties (save_line m l st line))"
  by (auto simp: save_line_def Let_def kept_refl kept_set_key split: list.splits option.splits)

lemma kept_foldl_save_line:
  "kept (properties st) (properties (foldl (save_line m l) st lines))"
proof (induction lines arbitrary: st)
  case Nil
  show ?case by (simp add: kept_refl)
next
  case (Cons a lines)
  show ?case using kept_trans [OF kept_save_line Cons.IH] by simp
qed










lemma load_nothing_to_do:
  "collect_modules module (getValidLocale locale st) st = [] \<Longrightarrow>
     properties (fst (load module cb locale st)) = properties st \<and>
     snd (load module cb locale st) = None"
  by (simp add: load_def Let_def)


lemma loaded_state_locale: "getValidLocale None loaded_state = js ''en_US''"
  by (simp add: loaded_state_def ready_state_def init_def getValidLocale_def initial_state_def
      empty_config_def js_def hyphen_def Let_def)

lemma loaded_state_isModuleLoaded:
  "isModuleLoaded (js ''A'') (js ''en_US'') loaded_state"
  by (simp add: loaded_state_def isModuleLoaded_def js_def)



section \<open>Initialisation\<close>

text \<open>
  C10. \<^verbatim>\<open>init\<close>, on any state (so also a second or later call), leaves the store and the
  trace of effects as they are; afterwards the configuration is valid and the current
  locale is the new default locale, the normalised \<^verbatim>\<open>config.defaultLocale\<close>.
\<close>

theorem init_keeps_store:
  "properties (init config st) = properties st \<and>
   trace (init config st) = trace st \<and>
   validConfiguration (init config st) \<and>
   currentLocale (init config st) = defaultLocale (init config st) \<and>
   defaultLocale (init config st) =
     getValidLocale (cfg_defaultLocale (case config of None \<Rightarrow> empty_config | Some c \<Rightarrow> c)) st"
  by (simp add: init_def Let_def)

section \<open>The completion callback\<close>

lemma callbacks_emit: "callbacks (emit e st) = callbacks st + (if e = Callback then 1 else 0)"
  by (simp add: callbacks_def emit_def)

lemma callbacks_log [simp]: "callbacks (log msg a st) = callbacks st"
  by (simp add: log_def Let_def callbacks_emit)

lemma callbacks_properties_update [simp]: "callbacks (st\<lparr>properties := ps\<rparr>) = callbacks st"
  by (simp add: callbacks_def)

lemma callbacks_save_line [simp]: "callbacks (save_line m l st line) = callbacks st"
  by (simp add: save_line_def Let_def split: list.splits option.splits)

lemma callbacks_foldl_save_line [simp]:
  "callbacks (foldl (save_line m l) st lines) = callbacks st"
  by (induction lines arbitrary: st) simp_all

lemma callbacks_saveFile [simp]: "callbacks (saveFile text m l st) = callbacks st"
  by (simp add: saveFile_def Let_def)

lemma callbacks_foldl_fetch [simp]:
  "callbacks (foldl (\<lambda>s x. emit (Fetch (f x s)) s) st xs) = callbacks st"
  by (induction xs arbitrary: st) (simp_all add: callbacks_emit)

lemma fetch_complete_call:
  "fst (fetch_complete (lc, st) d) = lc\<lparr>filesLoadedCount := filesLoadedCount lc + 1\<rparr>"
  by (simp add: fetch_complete_def Let_def)

lemma fetch_complete_callbacks:
  "callbacks (snd (fetch_complete (lc, st) d)) =
     callbacks st +
       (if filesLoadedCount lc + 1 = length (modulesToLoad lc) \<and> callback lc then 1 else 0)"
  by (simp add: fetch_complete_def Let_def callbacks_emit)

text \<open>
  The counter passes the number of modules once: whatever is delivered, the callback is
  called when the count reaches it and at no other completion.
\<close>

lemma deliver_callbacks:
  "callbacks (snd (deliver ds (lc, st))) =
     callbacks st +
       (if callback lc \<and> filesLoadedCount lc < length (modulesToLoad lc) \<and>
           length (modulesToLoad lc) \<le> filesLoadedCount lc + length ds
        then 1 else 0)"
proof (induction ds arbitrary: lc st)
  case Nil
  show ?case by (simp add: deliver_def)
next
  case (Cons d ds)
  have "fetch_complete (lc, st) d =
      (lc\<lparr>filesLoadedCount := filesLoadedCount lc + 1\<rparr>, snd (fetch_complete (lc, st) d))"
    using fetch_complete_call [of lc st d] by (simp add: prod_eq_iff)
  then have step: "deliver (d # ds) (lc, st) =
      deliver ds (lc\<lparr>filesLoadedCount := filesLoadedCount lc + 1\<rparr>, snd (fetch_complete (lc, st) d))"
    by (simp add: deliver_def)
  show ?case
    unfolding step Cons.IH fetch_complete_callbacks by auto
qed

lemma load_issues:
  assumes "load module cb locale st = (st1, Some lc)"
  shows "modulesToLoad lc \<noteq> []" and "filesLoadedCount lc = 0" and "callback lc = cb"
    and "callbacks st1 = callbacks st"
    and "validLocale lc = getValidLocale locale st"
    and "modulesToLoad lc = collect_modules module (getValidLocale locale st) st"
  using assms by (auto simp: load_def Let_def split: if_splits)

lemma two_modules_load_call:
  "snd two_modules_load =
     Some \<lparr> modulesToLoad = [js ''A'', js ''B''], validLocale = js ''en_US'',
            filesLoadedCount = 0, callback = True \<rparr>"
  by (simp add: two_modules_load_def load_def ready_state_def init_def initial_state_def
      getValidLocale_def collect_modules_def isModuleLoaded_def empty_config_def or_else_def
      js_def hyphen_def Let_def)

lemma ready_state_trace: "trace ready_state = []"
  by (simp add: ready_state_def init_def initial_state_def Let_def)

section \<open>What a load call fetches\<close>

lemma fileUrl_trace_update [simp]: "fileUrl m fl (st\<lparr>trace := t\<rparr>) = fileUrl m fl st"
  by (simp add: fileUrl_def)

lemma fileUrl_properties_update [simp]: "fileUrl m fl (st\<lparr>properties := ps\<rparr>) = fileUrl m fl st"
  by (simp add: fileUrl_def)

lemma foldl_issue_fetches:
  "foldl (\<lambda>s modName. emit (Fetch (fileUrl modName fl s)) s) st mods =
     st\<lparr>trace := trace st @ map (\<lambda>modName. Fetch (fileUrl modName fl st)) mods\<rparr>"
proof (induction mods arbitrary: st)
  case Nil
  show ?case by simp
next
  case (Cons m mods)
  show ?case by (simp add: Cons.IH) (simp add: emit_def)
qed

lemma concat_singletons: "concat (map (\<lambda>m. [f m]) ms) = map f ms"
  by (induction ms) simp_all

lemma fetches_issue:
  "fetches (st\<lparr>properties := ps, trace := trace st @ map (\<lambda>m. Fetch (f m)) ms\<rparr>) =
     fetches st @ map f ms"
  by (simp add: fetches_def o_def concat_singletons)

lemma fetches_properties_update [simp]: "fetches (st\<lparr>properties := ps\<rparr>) = fetches st"
  by (simp add: fetches_def)

lemma fetches_emit: "fetches (emit e st) = fetches st @ (case e of Fetch u \<Rightarrow> [u] | _ \<Rightarrow> [])"
  by (simp add: fetches_def emit_def)

lemma load_valid:
  assumes "validConfiguration st"
  shows "load module cb locale st =
     (let mods = collect_modules module (getValidLocale locale st) st in
      if mods = [] then ((if cb then emit Callback st else st), None)
      else (st\<lparr>properties := ensure_locale (getValidLocale locale st) (properties st),
               trace := trace st @ map (\<lambda>m. Fetch (fileUrl m (fileLocale locale st) st)) mods\<rparr>,
            Some \<lparr> modulesToLoad = mods, validLocale = getValidLocale locale st,
                   filesLoadedCount = 0, callback = cb \<rparr>))"
  using assms by (simp add: load_def Let_def foldl_issue_fetches)

lemma load_fetches:
  assumes "validConfiguration st"
  shows "fetches (fst (load module cb locale st)) =
     fetches st @ map (\<lambda>m. fileUrl m (fileLocale locale st) st)
        (collect_modules module (getValidLocale locale st) st)"
proof (cases "collect_modules module (getValidLocale locale st) st = []")
  case True
  then show ?thesis
    using assms by (simp add: load_valid Let_def fetches_emit)
next
  case False
  then show ?thesis
    using assms by (simp add: load_valid Let_def fetches_issue)
qed

text \<open>
  Where the completion callback is called once. A \<^verbatim>\<open>load\<close> call with a callback that
  issues fetches issues one for each module to load and calls no callback itself; after any
  sequence \<open>ds\<close> of completions of these fetches, in any order and with text or status
  values alike, the callback has been called once if as many completions have been
  delivered as fetches were issued, and not at all if fewer. This is for modules and a
  locale whose names do not reach a built-in object: in a map of the store no assignment
  of \<^verbatim>\<open>saveFile\<close> throws, so every completion reaches the counter.
\<close>

lemma callback_once_after_last_completion:
  assumes "fetches (fst (load module True locale st)) \<noteq> fetches st"
    and "\<forall>m \<in> set (collect_modules module (getValidLocale locale st) st). \<not> inherited m"
    and "\<not> inherited (getValidLocale locale st)"
  shows "\<exists>lc. snd (load module True locale st) = Some lc \<and>
           length (fetches (fst (load module True locale st))) =
             length (fetches st) + length (modulesToLoad lc) \<and>
           callbacks (fst (load module True locale st)) = callbacks st \<and>
           (\<forall>ds. callbacks (snd (deliver ds (lc, fst (load module True locale st)))) =
              callbacks st +
                (if length (fetches (fst (load module True locale st))) - length (fetches st)
                     \<le> length ds
                 then 1 else 0))"
proof -
  let ?L = "load module True locale st"
  let ?mods = "collect_modules module (getValidLocale locale st) st"
  have valid: "validConfiguration st"
  proof (rule ccontr)
    assume "\<not> validConfiguration st"
    then have "fetches (fst ?L) = fetches st"
      by (simp add: load_def log_def Let_def fetches_emit)
    with assms(1) show False by simp
  qed
  have f: "fetches (fst ?L) = fetches st @ map (\<lambda>m. fileUrl m (fileLocale locale st) st) ?mods"
    using valid by (rule load_fetches)
  with assms(1) have ne: "?mods \<noteq> []" by auto
  obtain st1 lc where L: "?L = (st1, Some lc)"
    using valid ne by (simp add: load_valid Let_def)
  note I = load_issues [OF L]
  have n: "length (fetches (fst ?L)) = length (fetches st) + length (modulesToLoad lc)"
    by (simp add: f I(6))
  have c: "callbacks (snd (deliver ds (lc, st1))) =
      callbacks st + (if length (modulesToLoad lc) \<le> length ds then 1 else 0)" for ds
    using I(1,2,3,4) by (simp add: deliver_callbacks)
  show ?thesis
    using I(4) n c by (simp add: L)
qed

lemma two_modules_callback_example:
  "callbacks (snd (deliver [(js ''B'', ResponseText (js ''b=2''))]
      (the (snd two_modules_load), fst two_modules_load))) = 0 \<and>
   callbacks (snd (deliver [(js ''B'', ResponseText (js ''b=2'')), (js ''A'', StatusValue 404)]
      (the (snd two_modules_load), fst two_modules_load))) = 1"
proof -
  have "snd two_modules_load = Some (the (snd two_modules_load))"
    unfolding two_modules_load_call by simp
  then have "two_modules_load = (fst two_modules_load, Some (the (snd two_modules_load)))"
    by (metis prod.collapse)
  then have h: "load (ManyModules [js ''A'', js ''B'']) True None ready_state =
     (fst two_modules_load, Some (the (snd two_modules_load)))"
    unfolding two_modules_load_def .
  note I = load_issues [OF h]
  have n: "length (modulesToLoad (the (snd two_modules_load))) = 2"
    by (simp add: two_modules_load_call)
  have c: "callbacks ready_state = 0"
    by (simp add: callbacks_def ready_state_trace)
  show ?thesis
    using I(1,2,3,4) n c by (simp add: deliver_callbacks)
qed

text \<open>
  C6 (as amended). Given a list of names, an initialised \<^verbatim>\<open>load\<close> fetches, in the
  order of the list, the names that are not empty and not yet loaded for the locale: no
  falsy name and no loaded name is fetched, and a name to fetch is fetched as often as it
  occurs in the list.
\<close>

theorem load_list_filters_modules:
  assumes "validConfiguration st"
  shows "fetches (fst (load (ManyModules ms) cb locale st)) =
           fetches st @ map (\<lambda>m. fileUrl m (fileLocale locale st) st)
             (filter (\<lambda>m. m \<noteq> [] \<and> \<not> isModuleLoaded m (getValidLocale locale st) st) ms) \<and>
         [] \<notin> set (filter (\<lambda>m. m \<noteq> [] \<and> \<not> isModuleLoaded m (getValidLocale locale st) st) ms) \<and>
         count_list (filter (\<lambda>m. m \<noteq> [] \<and> \<not> isModuleLoaded m (getValidLocale locale st) st) ms) x =
           (if x \<noteq> [] \<and> \<not> isModuleLoaded x (getValidLocale locale st) st
            then count_list ms x else 0)"
proof -
  have "count_list (filter P ms) x = (if P x then count_list ms x else 0)" for P :: "jsstring \<Rightarrow> bool"
    by (induction ms) auto
  then show ?thesis
    using load_fetches [OF assms, of "ManyModules ms" cb "locale"]
    by (simp add: collect_modules_def)
qed

lemma ready_state_simps:
  "validConfiguration ready_state" "properties ready_state = Map.empty"
  "filePath ready_state = []" "fileExtension ready_state = js ''.properties''"
  "defaultLocale ready_state = js ''en_US''" "currentLocale ready_state = js ''en_US''"
  "fileNameResolver ready_state = defaultFileNameResolver"
  "debugMode ready_state = False"
  by (simp_all add: ready_state_def init_def initial_state_def empty_config_def or_else_def
      getValidLocale_def DEFAULT_EXTENSION_def js_def hyphen_def dot_def Let_def)

lemma ready_state_fetches: "fetches ready_state = []"
  by (simp add: fetches_def ready_state_def init_def initial_state_def Let_def)

text \<open>
  C6 as stated fails: \<^verbatim>\<open>load(['A', 'A'], callback)\<close> fetches the file of \<^verbatim>\<open>A\<close>
  twice.
\<close>

theorem load_list_fetches_duplicates:
  "fetches (fst (load (ManyModules [js ''A'', js ''A'']) True None ready_state)) =
     [js ''A.properties'', js ''A.properties'']"
  by (simp add: load_fetches ready_state_simps ready_state_fetches collect_modules_def
      isModuleLoaded_def fileUrl_def fileLocale_def getValidLocale_def defaultFileNameResolver_def
      js_def hyphen_def)

theorem load_list_filters_modules_witness:
  "validConfiguration ready_state \<and>
   fetches (fst (load (ManyModules [js ''A'', [], js ''B'']) True None ready_state)) =
     [js ''A.properties'', js ''B.properties'']"
  using load_list_filters_modules [of ready_state "[js ''A'', [], js ''B'']" True None]
  by (simp add: ready_state_simps ready_state_fetches
      isModuleLoaded_def fileUrl_def fileLocale_def getValidLocale_def defaultFileNameResolver_def
      js_def hyphen_def)

section \<open>Loading a module again\<close>

lemma emit_frame [simp]:
  "currentLocale (emit e st) = currentLocale st"
  "defaultLocale (emit e st) = defaultLocale st"
  "validConfiguration (emit e st) = validConfiguration st"
  "debugMode (emit e st) = debugMode st"
  "filePath (emit e st) = filePath st"
  "fileExtension (emit e st) = fileExtension st"
  "fileNameResolver (emit e st) = fileNameResolver st"
  by (simp_all add: emit_def)

lemma log_frame [simp]:
  "currentLocale (log msg a st) = currentLocale st"
  "defaultLocale (log msg a st) = defaultLocale st"
  "validConfiguration (log msg a st) = validConfiguration st"
  "debugMode (log msg a st) = debugMode st"
  "filePath (log msg a st) = filePath st"
  "fileExtension (log msg a st) = fileExtension st"
  "fileNameResolver (log msg a st) = fileNameResolver st"
  by (simp_all add: log_def Let_def)

lemma save_line_frame [simp]:
  "currentLocale (save_line m l st line) = currentLocale st"
  "defaultLocale (save_line m l st line) = defaultLocale st"
  "validConfiguration (save_line m l st line) = validConfiguration st"
  "debugMode (save_line m l st line) = debugMode st"
  "filePath (save_line m l st line) = filePath st"
  "fileExtension (save_line m l st line) = fileExtension st"
  "fileNameResolver (save_line m l st line) = fileNameResolver st"
  by (simp_all add: save_line_def Let_def split: list.splits option.splits)

lemma foldl_save_line_frame [simp]:
  "currentLocale (foldl (save_line m l) st lines) = currentLocale st"
  "defaultLocale (foldl (save_line m l) st lines) = defaultLocale st"
  "validConfiguration (foldl (save_line m l) st lines) = validConfiguration st"
  "debugMode (foldl (save_line m l) st lines) = debugMode st"
  "filePath (foldl (save_line m l) st lines) = filePath st"
  "fileExtension (foldl (save_line m l) st lines) = fileExtension st"
  "fileNameResolver (foldl (save_line m l) st lines) = fileNameResolver st"
  by (induction lines arbitrary: st) simp_all

lemma saveFile_frame [simp]:
  "currentLocale (saveFile t m l st) = currentLocale st"
  "defaultLocale (saveFile t m l st) = defaultLocale st"
  "validConfiguration (saveFile t m l st) = validConfiguration st"
  "debugMode (saveFile t m l st) = debugMode st"
  "filePath (saveFile t m l st) = filePath st"
  "fileExtension (saveFile t m l st) = fileExtension st"
  "fileNameResolver (saveFile t m l st) = fileNameResolver st"
  by (simp_all add: saveFile_def Let_def)

lemma fetch_complete_frame [simp]:
  "currentLocale (snd (fetch_complete (lc, st) d)) = currentLocale st"
  "defaultLocale (snd (fetch_complete (lc, st) d)) = defaultLocale st"
  "validConfiguration (snd (fetch_complete (lc, st) d)) = validConfiguration st"
  "debugMode (snd (fetch_complete (lc, st) d)) = debugMode st"
  "filePath (snd (fetch_complete (lc, st) d)) = filePath st"
  "fileExtension (snd (fetch_complete (lc, st) d)) = fileExtension st"
  "fileNameResolver (snd (fetch_complete (lc, st) d)) = fileNameResolver st"
  by (simp_all add: fetch_complete_def Let_def)

lemma load_frame [simp]:
  "currentLocale (fst (load module cb locale st)) = currentLocale st"
  "defaultLocale (fst (load module cb locale st)) = defaultLocale st"
  "validConfiguration (fst (load module cb locale st)) = validConfiguration st"
  "debugMode (fst (load module cb locale st)) = debugMode st"
  "filePath (fst (load module cb locale st)) = filePath st"
  "fileExtension (fst (load module cb locale st)) = fileExtension st"
  "fileNameResolver (fst (load module cb locale st)) = fileNameResolver st"
  by (simp_all add: load_def Let_def foldl_issue_fetches)

lemma getValidLocale_cong:
  "currentLocale st' = currentLocale st \<Longrightarrow> getValidLocale locale st' = getValidLocale locale st"
  by (simp add: getValidLocale_def Let_def split: option.splits)

lemma isModuleLoaded_cong:
  "properties st' = properties st \<Longrightarrow> isModuleLoaded m l st' = isModuleLoaded m l st"
  by (simp add: isModuleLoaded_def)

lemma isModuleLoaded_kept:
  "kept (properties st) (properties st') \<Longrightarrow> isModuleLoaded m l st \<Longrightarrow> isModuleLoaded m l st'"
  unfolding kept_def isModuleLoaded_def
  by (fastforce split: option.splits if_splits)

lemma isModuleLoaded_ensure_module:
  "m \<noteq> [] \<Longrightarrow> l \<noteq> [] \<Longrightarrow> isModuleLoaded m l (st\<lparr>properties := ensure_module l m (properties st)\<rparr>)"
  by (simp add: isModuleLoaded_def ensure_module_def)

lemma isModuleLoaded_saveFile:
  assumes "coerce_text t \<noteq> []" "m \<noteq> []" "l \<noteq> []"
  shows "isModuleLoaded m l (saveFile t m l st)"
proof -
  let ?st1 = "st\<lparr>properties := ensure_module l m (properties st)\<rparr>"
  have "isModuleLoaded m l ?st1"
    using assms by (simp add: isModuleLoaded_ensure_module)
  moreover have "kept (properties ?st1) (properties (foldl (save_line m l) ?st1 (split_on newline (coerce_text t))))"
    by (rule kept_foldl_save_line)
  ultimately have "isModuleLoaded m l (foldl (save_line m l) ?st1 (split_on newline (coerce_text t)))"
    by (rule isModuleLoaded_kept [rotated])
  then show ?thesis using assms by (simp add: saveFile_def Let_def)
qed

lemma isModuleLoaded_fetch_complete:
  assumes "coerce_text t \<noteq> []" "m \<noteq> []" "validLocale lc \<noteq> []"
  shows "isModuleLoaded m (validLocale lc) (snd (fetch_complete (lc, st) (m, t)))"
proof -
  have a: "isModuleLoaded m (validLocale lc) (saveFile t m (validLocale lc) st)"
    using assms by (rule isModuleLoaded_saveFile)
  have p: "properties (snd (fetch_complete (lc, st) (m, t))) =
      properties (saveFile t m (validLocale lc) st)"
    by (simp add: fetch_complete_def Let_def)
  show ?thesis
    unfolding isModuleLoaded_cong [OF p] by (rule a)
qed

lemma load_loaded_module:
  assumes "validConfiguration st" "m \<noteq> []" "isModuleLoaded m (getValidLocale locale st) st"
  shows "load (OneModule m) cb locale st = ((if cb then emit Callback st else st), None)"
  using assms by (simp add: load_def Let_def collect_modules_def)

text \<open>
  C8 (as amended). On the initialised module, \<^verbatim>\<open>load\<close> of a module that is present
  in the store for the locale issues no fetch and returns after calling the callback (if
  one is given) without arguments. When the fetch of a first \<^verbatim>\<open>load\<close> has completed
  with contents that are not the empty string, a second \<^verbatim>\<open>load\<close> of the same module
  and locale is such a call.
\<close>

theorem load_of_loaded_module:
  assumes "validConfiguration st" and "m \<noteq> []"
  shows "(isModuleLoaded m (getValidLocale locale st) st \<longrightarrow>
            load (OneModule m) cb locale st = ((if cb then emit Callback st else st), None)) \<and>
         (load (OneModule m) cb locale st = (st1, Some lc) \<and> coerce_text r \<noteq> [] \<and>
          getValidLocale locale st \<noteq> [] \<longrightarrow>
            load (OneModule m) cb' locale (snd (fetch_complete (lc, st1) (m, r))) =
              ((if cb' then emit Callback (snd (fetch_complete (lc, st1) (m, r)))
                else snd (fetch_complete (lc, st1) (m, r))), None))"
proof (intro conjI impI)
  assume "isModuleLoaded m (getValidLocale locale st) st"
  with assms show "load (OneModule m) cb locale st = ((if cb then emit Callback st else st), None)"
    by (rule load_loaded_module)
next
  assume h: "load (OneModule m) cb locale st = (st1, Some lc) \<and> coerce_text r \<noteq> [] \<and>
          getValidLocale locale st \<noteq> []"
  let ?st2 = "snd (fetch_complete (lc, st1) (m, r))"
  from h have st1: "st1 = fst (load (OneModule m) cb locale st)" by simp
  from h have vl: "validLocale lc = getValidLocale locale st"
    using load_issues(5) by blast
  have cur: "currentLocale ?st2 = currentLocale st" by (simp add: st1)
  have gv: "getValidLocale locale ?st2 = getValidLocale locale st"
    using cur by (rule getValidLocale_cong)
  have "validLocale lc \<noteq> []" using h vl by simp
  with h assms(2) have "isModuleLoaded m (validLocale lc) ?st2"
    by (intro isModuleLoaded_fetch_complete) simp_all
  then have "isModuleLoaded m (getValidLocale locale ?st2) ?st2"
    by (simp add: gv vl)
  moreover have "validConfiguration ?st2" using assms(1) by (simp add: st1)
  ultimately show "load (OneModule m) cb' locale ?st2 =
      ((if cb' then emit Callback ?st2 else ?st2), None)"
    using assms(2) by (simp add: load_loaded_module)
qed

lemma one_module_load_call:
  "snd one_module_load =
     Some \<lparr> modulesToLoad = [js ''A''], validLocale = js ''en_US'',
            filesLoadedCount = 0, callback = True \<rparr>"
  by (simp add: one_module_load_def load_valid ready_state_simps getValidLocale_def
      collect_modules_def isModuleLoaded_def js_def hyphen_def Let_def)

lemma one_module_load_state:
  "fst one_module_load =
     ready_state\<lparr>properties := [js ''en_US'' \<mapsto> Map.empty], trace := [Fetch (js ''A.properties'')]\<rparr>"
  by (simp add: one_module_load_def load_valid ready_state_simps ready_state_trace getValidLocale_def
      collect_modules_def isModuleLoaded_def fileUrl_def fileLocale_def defaultFileNameResolver_def
      ensure_locale_def locale_entry_def
      js_def hyphen_def Let_def)

lemma after_empty_response_state:
  "after_empty_response =
     ready_state\<lparr>properties := [js ''en_US'' \<mapsto> Map.empty],
                 trace := [Fetch (js ''A.properties''), Callback]\<rparr>"
  by (simp add: after_empty_response_def one_module_load_call one_module_load_state
      fetch_complete_def saveFile_def coerce_text_def log_def emit_def ready_state_simps Let_def)

theorem load_of_loaded_module_witness:
  "validConfiguration loaded_state \<and> js ''A'' \<noteq> [] \<and>
   isModuleLoaded (js ''A'') (getValidLocale None loaded_state) loaded_state \<and>
   load (OneModule (js ''A'')) True None loaded_state = (emit Callback loaded_state, None) \<and>
   validConfiguration ready_state \<and>
   load (OneModule (js ''A'')) True None ready_state =
     (fst one_module_load, Some (the (snd one_module_load))) \<and>
   coerce_text (ResponseText (js ''k=v'')) \<noteq> [] \<and>
   getValidLocale None ready_state \<noteq> [] \<and>
   snd (load (OneModule (js ''A'')) False None
     (snd (fetch_complete (the (snd one_module_load), fst one_module_load)
        (js ''A'', ResponseText (js ''k=v''))))) = None"
proof -
  have A: "js ''A'' \<noteq> []" by (simp add: js_def)
  have v1: "validConfiguration loaded_state"
    by (simp add: loaded_state_def ready_state_simps)
  have L: "isModuleLoaded (js ''A'') (getValidLocale None loaded_state) loaded_state"
    by (simp add: loaded_state_locale loaded_state_isModuleLoaded)
  have "snd one_module_load = Some (the (snd one_module_load))"
    unfolding one_module_load_call by simp
  then have "one_module_load = (fst one_module_load, Some (the (snd one_module_load)))"
    by (metis prod.collapse)
  then have h: "load (OneModule (js ''A'')) True None ready_state =
     (fst one_module_load, Some (the (snd one_module_load)))"
    unfolding one_module_load_def .
  have c: "coerce_text (ResponseText (js ''k=v'')) \<noteq> []"
    by (simp add: coerce_text_def js_def)
  have g: "getValidLocale None ready_state \<noteq> []"
    by (simp add: getValidLocale_def ready_state_simps js_def hyphen_def)
  show ?thesis
    using A v1 L h c g ready_state_simps(1)
      load_of_loaded_module [OF v1 A, of None True]
      load_of_loaded_module [OF ready_state_simps(1) A, of None True "fst one_module_load"
        "the (snd one_module_load)" "ResponseText (js ''k=v'')" False]
    by simp
qed

text \<open>
  C8 as stated fails: when the first fetch completes with the empty text, the module stays
  out of the store, and a second \<^verbatim>\<open>load\<close> fetches the file again.
\<close>

theorem reload_after_empty_response_fetches_again:
  "fetches (fst (load (OneModule (js ''A'')) True None after_empty_response)) =
     [js ''A.properties'', js ''A.properties'']"
proof -
  have v: "validConfiguration after_empty_response"
    by (simp add: after_empty_response_state ready_state_simps)
  have f: "fetches after_empty_response = [js ''A.properties'']"
    by (simp add: after_empty_response_state fetches_def)
  show ?thesis
    unfolding load_fetches [OF v] f
    by (simp add: after_empty_response_state ready_state_simps
        collect_modules_def isModuleLoaded_def fileUrl_def fileLocale_def getValidLocale_def
        defaultFileNameResolver_def js_def hyphen_def)
qed

section \<open>The file locale\<close>

lemma replace_first_id: "a \<notin> set s \<Longrightarrow> replace_first a b s = s"
  by (induction s) auto

lemma replace_first_nonempty: "replace_first a b s = [] \<longleftrightarrow> s = []"
  by (cases s) auto

lemma getValidLocale_eq:
  "getValidLocale locale st =
     replace_first hyphen underscore (or_else locale (currentLocale st))"
  by (simp add: getValidLocale_def or_else_def Let_def replace_first_id split: option.splits)

lemma getValidLocale_nonempty:
  "currentLocale st \<noteq> [] \<Longrightarrow> getValidLocale locale st \<noteq> []"
  by (simp add: getValidLocale_eq or_else_def replace_first_nonempty split: option.splits)

text \<open>
  The rule of line 276, for a current locale that is not empty (as in every state the
  module reaches). The file locale is absent or empty exactly when the normalised locale is
  the default locale and no (non-empty) locale argument was passed. When the normalised
  locale is not the default locale, the file locale is the normalised locale. When a
  locale argument was passed and normalises to the default locale, the file locale is the
  argument as passed. The file names fetched are those the file name resolver gives for
  the file locale.
\<close>

lemma file_locale_rule:
  assumes "currentLocale st \<noteq> []"
  shows "(absent (fileLocale locale st) \<longleftrightarrow>
            getValidLocale locale st = defaultLocale st \<and> absent locale) \<and>
         (getValidLocale locale st \<noteq> defaultLocale st \<longrightarrow>
            fileLocale locale st = Some (getValidLocale locale st)) \<and>
         (getValidLocale locale st = defaultLocale st \<and> \<not> absent locale \<longrightarrow>
            fileLocale locale st = locale \<and>
            (\<exists>l. locale = Some l \<and> replace_first hyphen underscore l = defaultLocale st)) \<and>
         (validConfiguration st \<longrightarrow>
            fetches (fst (load module cb locale st)) =
              fetches st @
              map (\<lambda>m. filePath st @ fileNameResolver st m (fileLocale locale st) @ fileExtension st)
                (collect_modules module (getValidLocale locale st) st)) \<and>
         defaultFileNameResolver m (fileLocale locale st) =
           (if absent (fileLocale locale st) then m
            else m @ js ''_'' @ the (fileLocale locale st))"
proof -
  have ne: "getValidLocale locale st \<noteq> []"
    using assms by (rule getValidLocale_nonempty)
  have 1: "absent (fileLocale locale st) \<longleftrightarrow>
            getValidLocale locale st = defaultLocale st \<and> absent locale"
    using ne by (auto simp: fileLocale_def absent_def)
  have 2: "getValidLocale locale st \<noteq> defaultLocale st \<longrightarrow>
            fileLocale locale st = Some (getValidLocale locale st)"
    by (simp add: fileLocale_def)
  have 3: "getValidLocale locale st = defaultLocale st \<and> \<not> absent locale \<longrightarrow>
            fileLocale locale st = locale \<and>
            (\<exists>l. locale = Some l \<and> replace_first hyphen underscore l = defaultLocale st)"
    by (cases "locale") (auto simp: fileLocale_def absent_def getValidLocale_eq or_else_def)
  have 4: "validConfiguration st \<longrightarrow>
            fetches (fst (load module cb locale st)) =
              fetches st @
              map (\<lambda>m. filePath st @ fileNameResolver st m (fileLocale locale st) @ fileExtension st)
                (collect_modules module (getValidLocale locale st) st)"
    using load_fetches [of st "module" cb "locale"] by (simp add: fileUrl_def)
  have 5: "defaultFileNameResolver m (fileLocale locale st) =
           (if absent (fileLocale locale st) then m
            else m @ js ''_'' @ the (fileLocale locale st))"
    by (cases "fileLocale locale st") (auto simp: defaultFileNameResolver_def absent_def)
  from 1 2 3 4 5 show ?thesis by blast
qed

text \<open>
  C2. The claim fails on the code: with the default locale \<^verbatim>\<open>en_US\<close>, the explicit
  argument \<^verbatim>\<open>en-US\<close> normalises to the default locale, and the file is named from
  the argument as passed (\<^verbatim>\<open>Home_en-US.properties\<close>), not from the normalised locale,
  while the argument \<^verbatim>\<open>fr-FR\<close> gives \<^verbatim>\<open>Home_fr_FR.properties\<close>.
\<close>

theorem file_locale_keeps_hyphen:
  "getValidLocale (Some (js ''en-US'')) ready_state = js ''en_US'' \<and>
   defaultLocale ready_state = js ''en_US'' \<and>
   fileLocale (Some (js ''en-US'')) ready_state = Some (js ''en-US'') \<and>
   fetches (fst (load (OneModule (js ''Home'')) True (Some (js ''en-US'')) ready_state)) =
     [js ''Home_en-US.properties''] \<and>
   fetches (fst (load (OneModule (js ''Home'')) True (Some (js ''fr-FR'')) ready_state)) =
     [js ''Home_fr_FR.properties'']"
  by (simp add: load_fetches ready_state_simps ready_state_fetches collect_modules_def
      isModuleLoaded_def fileUrl_def fileLocale_def getValidLocale_def defaultFileNameResolver_def
      js_def hyphen_def underscore_def)

section \<open>Before initialisation\<close>

lemma get_ignores_flag:
  "get key module locale dflt (st\<lparr>validConfiguration := b\<rparr>) = get key module locale dflt st"
proof -
  have g: "getValidLocale locale (st\<lparr>validConfiguration := b\<rparr>) = getValidLocale locale st"
    by (rule getValidLocale_cong) simp
  have i: "isModuleLoaded m l (st\<lparr>validConfiguration := b\<rparr>) = isModuleLoaded m l st" for m l
    by (rule isModuleLoaded_cong) simp
  show ?thesis
    by (simp add: get_def g i Let_def)
qed

lemma message_append:
  "js ''messageResource.js : '' @ js ''Invalid configuration - Invoke init method with proper configuration''
     = invalid_configuration_message"
  by (simp add: invalid_configuration_message_def js_def)

text \<open>
  C7 (as amended). Before \<^verbatim>\<open>init\<close>, \<^verbatim>\<open>load\<close> reports the invalid
  configuration by an alert (and on the console in debug mode) and returns: the store is
  neither written nor read, no fetch is issued and no callback is called. \<^verbatim>\<open>get\<close>
  has no such check: it returns what it returns with a valid configuration.
\<close>

theorem load_before_init_aborts:
  assumes "\<not> validConfiguration st"
  shows "load module cb locale st =
           (st\<lparr>trace := trace st @
               (if debugMode st then [ConsoleLog invalid_configuration_message] else []) @
               [Alert invalid_configuration_message]\<rparr>, None) \<and>
         properties (fst (load module cb locale st)) = properties st \<and>
         fst (load module cb locale (st\<lparr>properties := ps\<rparr>)) =
           (fst (load module cb locale st))\<lparr>properties := ps\<rparr> \<and>
         callbacks (fst (load module cb locale st)) = callbacks st \<and>
         fetches (fst (load module cb locale st)) = fetches st \<and>
         get key module' locale' dflt st =
           get key module' locale' dflt (st\<lparr>validConfiguration := True\<rparr>)"
proof -
  have 1: "load module cb locale st =
           (st\<lparr>trace := trace st @
               (if debugMode st then [ConsoleLog invalid_configuration_message] else []) @
               [Alert invalid_configuration_message]\<rparr>, None)"
    using assms by (simp add: load_def log_def emit_def Let_def message_append)
  have 2: "load module cb locale (st\<lparr>properties := ps\<rparr>) =
           (st\<lparr>properties := ps, trace := trace st @
               (if debugMode st then [ConsoleLog invalid_configuration_message] else []) @
               [Alert invalid_configuration_message]\<rparr>, None)"
    using assms by (simp add: load_def log_def emit_def Let_def message_append)
  show ?thesis
    unfolding 1 2 by (simp add: callbacks_def fetches_def get_ignores_flag)
qed

text \<open>
  C7 as stated fails for \<^verbatim>\<open>get\<close>: before \<^verbatim>\<open>init\<close> it is not aborted, it
  returns the default value as usual.
\<close>

theorem get_before_init_returns:
  "\<not> validConfiguration initial_state \<and>
   get (js ''greeting'') None None (Some (js ''Hello'')) initial_state = Inr (js ''Hello'')"
  by (simp add: get_def initial_state_def isModuleLoaded_def or_else_def getValidLocale_def
      DEFAULT_MODULE_NAME_def js_def hyphen_def Let_def)

theorem load_before_init_aborts_witness:
  "\<not> validConfiguration initial_state \<and>
   load (OneModule (js ''A'')) True None initial_state =
     (initial_state\<lparr>trace := [Alert invalid_configuration_message]\<rparr>, None) \<and>
   callbacks (fst (load (OneModule (js ''A'')) True None initial_state)) = 0 \<and>
   fetches (fst (load (OneModule (js ''A'')) True None initial_state)) = []"
proof -
  have v: "\<not> validConfiguration initial_state" by (simp add: initial_state_def)
  have t: "trace initial_state = []" "debugMode initial_state = False"
    by (simp_all add: initial_state_def)
  have c: "callbacks initial_state = 0" "fetches initial_state = []"
    by (simp_all add: callbacks_def fetches_def t)
  show ?thesis
    using v load_before_init_aborts [OF v, of "OneModule (js ''A'')" True None Map.empty
        "[]" None None None]
    by (elim conjE) (simp add: t c)
qed

section \<open>A fetch that fails\<close>

lemma match_from_no_eq: "eq_sign \<notin> set s \<Longrightarrow> match_from s = None"
proof -
  assume "eq_sign \<notin> set s"
  then have d: "dropWhile (\<lambda>c. c \<noteq> eq_sign) s = []"
    by (simp add: dropWhile_eq_Nil_conv) blast
  show ?thesis unfolding match_from_def d by simp
qed

lemma match_key_value_no_eq: "eq_sign \<notin> set s \<Longrightarrow> match_key_value s = None"
proof (induction s)
  case Nil
  show ?case by simp
next
  case (Cons c cs)
  then have "match_from (c # cs) = None" by (intro match_from_no_eq)
  with Cons show ?case by simp
qed

lemma set_trim: "set (trim s) \<subseteq> set s"
proof -
  have "set (trim s) = set (dropWhile is_trim_char (rev (dropWhile is_trim_char s)))"
    by (simp add: trim_def)
  also have "\<dots> \<subseteq> set (rev (dropWhile is_trim_char s))"
    by (meson set_dropWhileD subsetI)
  also have "\<dots> \<subseteq> set s"
    using set_dropWhileD by fastforce
  finally show ?thesis .
qed

lemma save_line_no_eq:
  assumes "eq_sign \<notin> set line"
  shows "properties (save_line m l st line) = properties st"
proof -
  have "eq_sign \<notin> set (trim line)" using assms set_trim by blast
  then have "match_key_value (trim line) = None" by (rule match_key_value_no_eq)
  then show ?thesis
    by (simp add: save_line_def Let_def split: list.splits)
qed

lemma foldl_save_line_no_eq:
  "\<forall>line \<in> set lines. eq_sign \<notin> set line \<Longrightarrow>
     properties (foldl (save_line m l) st lines) = properties st"
  by (induction lines arbitrary: st) (simp_all add: save_line_no_eq)

lemma split_on_subset: "line \<in> set (split_on c s) \<Longrightarrow> set line \<subseteq> set s"
proof (induction s arbitrary: line)
  case Nil
  then show ?case by simp
next
  case (Cons x xs)
  show ?case
  proof (cases "x = c")
    case True
    with Cons show ?thesis by auto
  next
    case False
    then obtain l ls where s: "split_on c xs = l # ls"
      by (cases "split_on c xs") (cases xs, auto split: if_splits list.splits)
    with False Cons.prems have "line = x # l \<or> line \<in> set ls" by simp
    then show ?thesis
    proof
      assume "line = x # l"
      moreover have "set l \<subseteq> set xs" using Cons.IH [of l] s by simp
      ultimately show ?thesis by auto
    next
      assume "line \<in> set ls"
      then have "set line \<subseteq> set xs" using Cons.IH [of line] s by simp
      then show ?thesis by auto
    qed
  qed
qed

lemma saveFile_no_eq:
  assumes "coerce_text t \<noteq> []" "eq_sign \<notin> set (coerce_text t)"
  shows "properties (saveFile t m l st) = ensure_module l m (properties st)"
proof -
  have "\<forall>line \<in> set (split_on newline (coerce_text t)). eq_sign \<notin> set line"
    using assms(2) split_on_subset by blast
  then show ?thesis
    using assms(1) by (simp add: saveFile_def Let_def foldl_save_line_no_eq)
qed

lemma digit_not_eq_sign: "n < 10 \<Longrightarrow> (of_nat (48 + n) :: jschar) \<noteq> eq_sign"
proof
  assume n: "n < 10" and e: "(of_nat (48 + n) :: jschar) = eq_sign"
  have "unat (of_nat (48 + n) :: jschar) = 48 + n"
    unfolding unat_of_nat using n by simp
  moreover have "unat eq_sign = 61" by (simp add: eq_sign_def)
  ultimately show False using e n by simp
qed

lemma digit_no_eq_sign: "n < 10 \<Longrightarrow> eq_sign \<notin> set [of_nat (48 + n) :: jschar]"
  using digit_not_eq_sign [of n] by (simp del: of_nat_add of_nat_numeral)

lemma to_decimal_no_eq: "eq_sign \<notin> set (to_decimal n)"
proof (induction n rule: to_decimal.induct)
  case (1 n)
  show ?case
  proof (cases "n < 10")
    case True
    have t: "to_decimal n = [of_nat (48 + n)]"
      using True by (subst to_decimal.simps) simp
    show ?thesis unfolding t using True by (rule digit_no_eq_sign)
  next
    case False
    have t: "to_decimal n = to_decimal (n div 10) @ [of_nat (48 + n mod 10)]"
      using False by (subst to_decimal.simps) simp
    have "n mod 10 < 10" by simp
    then have "eq_sign \<notin> set [of_nat (48 + n mod 10) :: jschar]" by (rule digit_no_eq_sign)
    moreover have "eq_sign \<notin> set (to_decimal (n div 10))" using 1 False by simp
    ultimately show ?thesis unfolding t set_append by blast
  qed
qed

lemma to_decimal_nonempty: "to_decimal n \<noteq> []"
  by (subst to_decimal.simps) simp

lemma ajaxGet_failure: "status \<noteq> 200 \<Longrightarrow> ajaxGet status responseText = StatusValue status"
  by (simp add: ajaxGet_def)

lemma saveFile_status:
  "properties (saveFile (StatusValue n) m l st) = ensure_module l m (properties st)"
  by (rule saveFile_no_eq) (simp_all add: coerce_text_def to_decimal_nonempty to_decimal_no_eq)

lemma collect_modules_member:
  assumes "m \<in> set (collect_modules module l st)"
  shows "m \<noteq> []" and "\<not> isModuleLoaded m l st"
  using assms
  by (auto simp: collect_modules_def DEFAULT_MODULE_NAME_def js_def Let_def
      split: module_arg.splits if_splits)

lemma not_loaded_entry:
  "m \<noteq> [] \<Longrightarrow> l \<noteq> [] \<Longrightarrow> \<not> isModuleLoaded m l st \<Longrightarrow> locale_entry (properties st) l m = None"
  by (auto simp: isModuleLoaded_def locale_entry_def split: option.splits)


lemma load_issues_valid:
  "load module cb locale st = (st1, Some lc) \<Longrightarrow> validConfiguration st"
  by (auto simp: load_def Let_def split: if_splits)

lemma locale_entry_Some:
  "locale_entry ps l m = Some mm \<Longrightarrow> \<exists>lm. ps l = Some lm \<and> lm m = Some mm"
  by (cases "ps l") (simp_all add: locale_entry_def)

text \<open>
  A completion with a status value, whatever the state and the \<^verbatim>\<open>load\<close> call it
  belongs to: the status is parsed as a text of one line without \<^verbatim>\<open>=\<close>, which
  creates the module's entry when there is none and stores no key.
\<close>

lemma fetch_complete_status:
  "properties (snd (fetch_complete (lc, st) (m, StatusValue n))) =
     ensure_module (validLocale lc) m (properties st)"
  by (simp add: fetch_complete_def Let_def saveFile_status)

lemma after_status_404_properties:
  "properties after_status_404 = [js ''en_US'' \<mapsto> [js ''A'' \<mapsto> Map.empty]]"
  by (simp add: after_status_404_def fetch_complete_status
      one_module_load_call one_module_load_state ensure_module_def locale_entry_def module_entry_def)

lemma after_status_404_valid: "validConfiguration after_status_404"
  by (simp add: after_status_404_def one_module_load_def ready_state_simps)

text \<open>
  C1. The claim fails on the code: after \<^verbatim>\<open>load('A', callback)\<close> on the initialised
  module and the completion of its fetch with the status 404, the module \<^verbatim>\<open>A\<close> is in
  the store for the locale \<^verbatim>\<open>en_US\<close>, with no key, it does not remain absent; a second
  \<^verbatim>\<open>load('A', callback)\<close> then fetches nothing and calls the callback at once.
\<close>

theorem failed_fetch_module_present:
  "isModuleLoaded (js ''A'') (js ''en_US'') after_status_404 \<and>
   properties after_status_404 (js ''en_US'') = Some [js ''A'' \<mapsto> Map.empty] \<and>
   fetches (fst (load (OneModule (js ''A'')) True None after_status_404)) =
     fetches after_status_404 \<and>
   snd (load (OneModule (js ''A'')) True None after_status_404) = None"
proof -
  have l: "isModuleLoaded (js ''A'') (js ''en_US'') after_status_404"
    by (simp add: isModuleLoaded_def after_status_404_properties js_def)
  have g: "getValidLocale None after_status_404 = js ''en_US''"
    by (simp add: getValidLocale_def after_status_404_def one_module_load_def ready_state_simps
        js_def hyphen_def)
  have c: "collect_modules (OneModule (js ''A'')) (js ''en_US'') after_status_404 = []"
    using l by (simp add: collect_modules_def js_def)
  have f: "fetches (fst (load (OneModule (js ''A'')) True None after_status_404)) =
      fetches after_status_404"
    by (simp add: load_fetches [OF after_status_404_valid] g c)
  have n: "snd (load (OneModule (js ''A'')) True None after_status_404) = None"
    using load_nothing_to_do [of "OneModule (js ''A'')" None after_status_404 True]
    by (simp add: g c)
  from l f n show ?thesis by (simp add: after_status_404_properties)
qed

section \<open>Lookup\<close>








text \<open>
  The current locale is never empty: it starts as \<^verbatim>\<open>en_US\<close>, and \<^verbatim>\<open>init\<close>
  and \<^verbatim>\<open>setCurrentLocale\<close> only assign non-empty strings.
\<close>

lemma run_op_current_locale:
  "currentLocale st \<noteq> [] \<Longrightarrow> currentLocale (run_op st op) \<noteq> []"
  by (cases op)
     (auto simp: init_def Let_def setCurrentLocale_def getValidLocale_nonempty split: option.splits)

lemma current_locale_never_empty:
  "currentLocale (foldl run_op initial_state ops) \<noteq> []"
proof -
  have "currentLocale st \<noteq> [] \<Longrightarrow> currentLocale (foldl run_op st ops) \<noteq> []" for st
    by (induction ops arbitrary: st) (simp_all add: run_op_current_locale)
  moreover have "currentLocale initial_state \<noteq> []"
    by (simp add: initial_state_def js_def)
  ultimately show ?thesis by blast
qed





section \<open>Lines of a resource file\<close>

text \<open>
  Where the line format holds: a trimmed line that has no line terminator after its first
  \<^verbatim>\<open>=\<close> is split there, both parts trimmed (the key \<^verbatim>\<open>__proto__\<close> apart, which
  stores nothing); blank lines and comments are skipped; a line without \<^verbatim>\<open>=\<close> or
  with nothing before it is logged and stores nothing.
\<close>

lemma match_from_first_eq:
  assumes "eq_sign \<in> set t"
    and "\<not> list_ex is_line_terminator (tl (dropWhile (\<lambda>c. c \<noteq> eq_sign) t))"
  shows "match_from t =
     Some (takeWhile (\<lambda>c. c \<noteq> eq_sign) t, tl (dropWhile (\<lambda>c. c \<noteq> eq_sign) t))"
proof -
  from assms(1) obtain v where d: "dropWhile (\<lambda>c. c \<noteq> eq_sign) t = eq_sign # v"
    by (metis (mono_tags, lifting) dropWhile_eq_Nil_conv hd_dropWhile list.collapse)
  show ?thesis using assms(2) unfolding match_from_def d by simp
qed

lemma match_key_value_first_eq:
  assumes "eq_sign \<in> set t"
    and "\<not> list_ex is_line_terminator (tl (dropWhile (\<lambda>c. c \<noteq> eq_sign) t))"
  shows "match_key_value t =
     Some (takeWhile (\<lambda>c. c \<noteq> eq_sign) t, tl (dropWhile (\<lambda>c. c \<noteq> eq_sign) t))"
proof (cases t)
  case Nil
  with assms(1) show ?thesis by simp
next
  case (Cons c cs)
  show ?thesis
    using match_from_first_eq [OF assms] unfolding Cons by simp
qed

lemma save_line_well_formed:
  assumes "trim line = c # cs" and "c \<noteq> hash_sign" and "c \<noteq> eq_sign"
    and "eq_sign \<in> set cs"
    and "\<not> list_ex is_line_terminator (tl (dropWhile (\<lambda>x. x \<noteq> eq_sign) cs))"
    and "trim (c # takeWhile (\<lambda>x. x \<noteq> eq_sign) cs) \<noteq> js ''__proto__''"
  shows "save_line m l st line =
     st\<lparr>properties :=
          set_key l m (trim (c # takeWhile (\<lambda>x. x \<noteq> eq_sign) cs))
            (trim (tl (dropWhile (\<lambda>x. x \<noteq> eq_sign) cs))) (properties st)\<rparr>"
proof -
  have e: "eq_sign \<in> set (c # cs)" using assms(4) by simp
  have t: "takeWhile (\<lambda>x. x \<noteq> eq_sign) (c # cs) = c # takeWhile (\<lambda>x. x \<noteq> eq_sign) cs"
    and d: "dropWhile (\<lambda>x. x \<noteq> eq_sign) (c # cs) = dropWhile (\<lambda>x. x \<noteq> eq_sign) cs"
    using assms(3) by simp_all
  have "match_key_value (c # cs) =
      Some (c # takeWhile (\<lambda>x. x \<noteq> eq_sign) cs, tl (dropWhile (\<lambda>x. x \<noteq> eq_sign) cs))"
    using match_key_value_first_eq [of "c # cs"] e assms(5) unfolding t d by blast
  moreover have "trim [] = []" by (simp add: trim_def)
  ultimately show ?thesis
    using assms(1,2,6) by (simp add: save_line_def Let_def)
qed

lemma save_line_skipped:
  "trim line = [] \<Longrightarrow> save_line m l st line = st"
  "trim line = hash_sign # cs \<Longrightarrow> save_line m l st line = st"
  by (simp_all add: save_line_def Let_def)

lemma save_line_invalid:
  assumes "trim line = c # cs" and "c \<noteq> hash_sign"
    and "eq_sign \<notin> set (c # cs) \<or> (c = eq_sign \<and> \<not> list_ex is_line_terminator cs)"
  shows "save_line m l st line = log (js ''Invalid line : '' @ trim line) False st"
proof -
  from assms(3) have "match_key_value (c # cs) = None \<or> match_key_value (c # cs) = Some ([], cs)"
  proof
    assume "eq_sign \<notin> set (c # cs)"
    then show ?thesis using match_key_value_no_eq by blast
  next
    assume "c = eq_sign \<and> \<not> list_ex is_line_terminator cs"
    then have "match_from (c # cs) = Some ([], cs)" by (simp add: match_from_def)
    then show ?thesis by simp
  qed
  then show ?thesis
    using assms(1,2) by (auto simp: save_line_def Let_def)
qed

lemma after_cr_text_properties:
  "properties after_cr_text =
     [js ''en_US'' \<mapsto> [js ''M'' \<mapsto> [js ''b'' @ [carriage_return] @ js ''c'' \<mapsto> js ''d'']]]"
  by (simp add: after_cr_text_def cr_text_def saveFile_def coerce_text_def save_line_def
      ready_state_simps match_from_def set_key_def ensure_module_def locale_entry_def
      module_entry_def trim_def is_trim_char_def is_white_space_def is_line_terminator_def
      carriage_return_def newline_def hash_sign_def eq_sign_def js_def Let_def)

text \<open>
  C4. The claim fails on a line with a carriage return after its first \<^verbatim>\<open>=\<close>:
  \<^verbatim>\<open>.\<close> of the pattern does not match a line terminator, the match at the first
  \<^verbatim>\<open>=\<close> fails and the search goes on to the right. The text \<^verbatim>\<open>a=b\rc=d\<close>
  stores nothing under \<^verbatim>\<open>a\<close> and stores \<^verbatim>\<open>d\<close> under \<^verbatim>\<open>b\rc\<close>.
\<close>

theorem carriage_return_line_stored_under_other_key:
  "module_entry (properties after_cr_text) (js ''en_US'') (js ''M'') (js ''a'') = None \<and>
   module_entry (properties after_cr_text) (js ''en_US'') (js ''M'')
     (js ''b'' @ [carriage_return] @ js ''c'') = Some (js ''d'')"
  by (simp add: after_cr_text_properties module_entry_def locale_entry_def js_def
      carriage_return_def)

end
